theory Spec2Isabelle
  imports Main "HOL-Library.Word"
begin

section \<open>The Connection transport core of SciDB (network/Connection.h)\<close>

text \<open>
  A shallow embedding of the classes declared in \<^verbatim>\<open>src/network/Connection.h\<close>:
  \<^verbatim>\<open>Connection::Channel\<close>, \<^verbatim>\<open>Connection::MultiChannelQueue\<close> and the connection
  state of \<^verbatim>\<open>Connection\<close>. Every \<^verbatim>\<open>uint64_t\<close> field is a 64-bit word, so that
  subtraction and increment wrap around as they do in C++. A failed \<^verbatim>\<open>assert\<close> and a
  thrown exception are values of the type \<open>error\<close>; a function that can fail returns
  \<open>error + 'a\<close>, with \<open>Inl\<close> for the failure.
\<close>

subsection \<open>Scalars, errors and collaborators\<close>

type_synonym u64 = "64 word"
type_synonym InstanceID = u64
type_synonym MessageQueueType = nat

datatype error =
    AssertionFailed
  | CantGetSystemTime
  | Overflow MessageQueueType
  | ProtocolViolation
  | Unspecified

text \<open>
  Modelled from the spec: \<^verbatim>\<open>network/NetworkManager.h\<close> is not part of the sources at
  hand. The enumeration \<^verbatim>\<open>NetworkManager::MessageQueueType\<close> is read as an index, its
  enumerators \<^verbatim>\<open>mqtNone\<close> and \<^verbatim>\<open>mqtMax\<close> and the two configuration functions that
  the Channel constructor calls (section 6 of the spec: \<^verbatim>\<open>getSendQueueLimit(class) -> u64\<close>,
  \<^verbatim>\<open>getReceiveQueueHint(class) -> u64\<close>) are parameters of the model.
\<close>

record NetworkManager =
  mqtNone :: MessageQueueType
  mqtMax :: MessageQueueType
  getSendQueueLimit :: "MessageQueueType \<Rightarrow> u64"
  getReceiveQueueHint :: "MessageQueueType \<Rightarrow> u64"

subsection \<open>Channel\<close>

text \<open>
  The private fields of \<^verbatim>\<open>Connection::Channel\<close> (Connection.h, lines 156 to 164). The
  messages of the queue are opaque to the transport core, so their type is a parameter.
\<close>

record 'm Channel =
  instanceId :: InstanceID
  mqt :: MessageQueueType
  remoteSize :: u64
  localSeqNum :: u64
  remoteSeqNum :: u64
  localSeqNumOnPeer :: u64
  msgQ :: "'m list"
  sendQueueLimit :: u64

text \<open>
  The constructor (lines 66 to 79): the sequence numbers start at 0, the queue is empty,
  and both limits are read from the NetworkManager and raised to 1 when they are not
  greater than 1. The first assertion is a branch of the model.
\<close>

definition Channel_ctor :: "NetworkManager \<Rightarrow> InstanceID \<Rightarrow> MessageQueueType \<Rightarrow> error + 'm Channel" where
  "Channel_ctor nm iid t =
     (if \<not> t < mqtMax nm then Inl AssertionFailed
      else
        let sl = getSendQueueLimit nm t;
            sl' = (if sl > 1 then sl else 1);
            rs = getReceiveQueueHint nm t;
            rs' = (if rs > 1 then rs else 1)
        in Inr \<lparr> instanceId = iid, mqt = t, remoteSize = rs',
                 localSeqNum = 0, remoteSeqNum = 0, localSeqNumOnPeer = 0,
                 msgQ = [], sendQueueLimit = sl' \<rparr>)"

text \<open>\<^verbatim>\<open>validateRemoteState\<close> (lines 121 to 126).\<close>

definition validateRemoteState :: "'m Channel \<Rightarrow> u64 \<Rightarrow> u64 \<Rightarrow> u64 \<Rightarrow> bool" where
  "validateRemoteState ch rSize lSn rSn = (localSeqNum ch \<ge> lSn)"

text \<open>
  \<^verbatim>\<open>isActive\<close> (lines 128 to 133). The subtraction is the unsigned 64-bit one; the
  assertion that precedes it is a branch of the model.
\<close>

definition isActive :: "'m Channel \<Rightarrow> error + bool" where
  "isActive ch =
     (if \<not> localSeqNum ch \<ge> localSeqNumOnPeer ch then Inl AssertionFailed
      else Inr (remoteSize ch > localSeqNum ch - localSeqNumOnPeer ch \<and> msgQ ch \<noteq> []))"

text \<open>
  The derived quantities of the spec's data model, in the spec's words: the in-flight
  count is \<open>localSeq - localSeqOnPeer\<close> and the available credit is
  \<open>remoteCapacity - inFlight\<close>, both as numbers (the credit may be negative).
\<close>

definition inFlight :: "'m Channel \<Rightarrow> int" where
  "inFlight ch = uint (localSeqNum ch) - uint (localSeqNumOnPeer ch)"

definition availableCredit :: "'m Channel \<Rightarrow> int" where
  "availableCredit ch = uint (remoteSize ch) - inFlight ch"

subsection \<open>Generation ids\<close>

text \<open>
  \<^verbatim>\<open>MultiChannelQueue::getNextGenId\<close> (lines 270 to 288) reads a clock chosen at compile
  time. The build and the two clocks are the environment of the model; a reading is
  \<open>None\<close> when the system call returns -1. In that case \<^verbatim>\<open>assert(false)\<close> comes
  first (lines 276 and 283) and the throw of \<^verbatim>\<open>SCIDB_LE_CANT_GET_SYSTEM_TIME\<close> follows it;
  as in the rest of the model the assertion is a branch, so the failure is
  \<open>AssertionFailed\<close> and the throw is what lies behind it. On the LP64 targets of the
  code \<^verbatim>\<open>time_t\<close> and \<^verbatim>\<open>long\<close> are 64 bits wide and the arithmetic is done in
  \<^verbatim>\<open>uint64_t\<close>, so the fields are 64-bit words.
\<close>

datatype build = APPLE | OTHER

record timeval =
  tv_sec :: u64
  tv_usec :: u64

record timespec =
  ts_sec :: u64
  ts_nsec :: u64

record Clocks =
  platform :: build
  gettimeofday :: "timeval option"
  clock_gettime_MONOTONIC :: "timespec option"

definition billion :: u64 where
  "billion = 1000000000"

definition getNextGenId :: "Clocks \<Rightarrow> error + u64" where
  "getNextGenId env =
     (case platform env of
        APPLE \<Rightarrow>
          (case gettimeofday env of
             None \<Rightarrow> (if \<not> False then Inl AssertionFailed else Inl CantGetSystemTime)
           | Some tv \<Rightarrow> Inr (tv_sec tv * billion + tv_usec tv * 1000))
      | OTHER \<Rightarrow>
          (case clock_gettime_MONOTONIC env of
             None \<Rightarrow> (if \<not> False then Inl AssertionFailed else Inl CantGetSystemTime)
           | Some ts \<Rightarrow> Inr (ts_sec ts * billion + ts_nsec ts)))"

subsection \<open>MultiChannelQueue\<close>

text \<open>
  The private fields of \<^verbatim>\<open>Connection::MultiChannelQueue\<close> (lines 261 to 269). The vector
  of shared pointers is a list of optional channels: the constructor fills it with
  \<^verbatim>\<open>mqtMax\<close> null pointers.
\<close>

record 'm MultiChannelQueue =
  mcq_instanceId :: InstanceID
  channels :: "'m Channel option list"
  currChannel :: "32 word"
  activeChannelCount :: u64
  size_mcq :: u64
  remoteGenId :: u64
  localGenId :: u64

definition MultiChannelQueue_ctor ::
  "NetworkManager \<Rightarrow> Clocks \<Rightarrow> InstanceID \<Rightarrow> error + 'm MultiChannelQueue" where
  "MultiChannelQueue_ctor nm env iid =
     (case getNextGenId env of
        Inl e \<Rightarrow> Inl e
      | Inr g \<Rightarrow>
          Inr \<lparr> mcq_instanceId = iid,
                channels = replicate (mqtMax nm) None,
                currChannel = of_nat (mqtNone nm),
                activeChannelCount = 0,
                size_mcq = 0,
                remoteGenId = 0,
                localGenId = g \<rparr>)"



subsection \<open>Connection\<close>

datatype ConnectionState = NOT_CONNECTED | CONNECT_IN_PROGRESS | CONNECTED

text \<open>
  The fields of \<^verbatim>\<open>Connection\<close> that the transport core reads (lines 293 to 313); the
  socket, the resolver query and the client query handlers are left out.
\<close>

record 'm Connection =
  messageQueue :: "'m MultiChannelQueue"
  instanceID :: InstanceID
  sourceInstanceID :: InstanceID
  connectionState :: ConnectionState
  isSending :: bool
  logConnectErrors :: bool

text \<open>\<^verbatim>\<open>Connection::isConnected\<close> (lines 363 to 366).\<close>

definition isConnected :: "'m Connection \<Rightarrow> bool" where
  "isConnected c = (connectionState c = CONNECTED)"

subsection \<open>Channel operations whose bodies are not in the header\<close>

text \<open>
  Modelled from the spec: \<^verbatim>\<open>NetworkManager::ConnectionStatus\<close> is declared in
  NetworkManager.h, which is missing. Section 4.1 of the spec calls it a status delta: it
  identifies the channel and its payload is the new available count.
\<close>

record ConnectionStatus =
  cs_instanceId :: InstanceID
  cs_queueType :: MessageQueueType
  cs_available :: u64

text \<open>
  Modelled from the spec: the body of \<^verbatim>\<open>Channel::getAvailable\<close> is in Connection.cpp,
  which is missing. Section 3: available credit = remoteCapacity - inFlight; as a count of
  messages it is 0 when the in-flight count has reached the remote capacity.
\<close>

definition getAvailable :: "'m Channel \<Rightarrow> u64" where
  "getAvailable ch =
     (if remoteSize ch > localSeqNum ch - localSeqNumOnPeer ch
      then remoteSize ch - (localSeqNum ch - localSeqNumOnPeer ch) else 0)"

text \<open>
  Modelled from the spec: the body of \<^verbatim>\<open>Channel::getNewStatus\<close> is in Connection.cpp.
  Section 4.1: a status delta is returned iff the available space crossed the 0-boundary
  in either direction; its payload is the new available count.
\<close>

definition getNewStatus :: "'m Channel \<Rightarrow> u64 \<Rightarrow> u64 \<Rightarrow> ConnectionStatus option" where
  "getNewStatus ch spaceBefore spaceAfter =
     (if (spaceBefore = 0) \<noteq> (spaceAfter = 0)
      then Some \<lparr> cs_instanceId = instanceId ch, cs_queueType = mqt ch, cs_available = spaceAfter \<rparr>
      else None)"

text \<open>
  Modelled from the spec: the body of \<^verbatim>\<open>Channel::pushBack\<close> is in Connection.cpp.
  Section 4.1: "Preconditions: queue.size < sendLimit AND credit-check
  localSeq - localSeqOnPeer < sendLimit. Otherwise fails with Overflow. Effect: append msg,
  increment localSeq."
\<close>

definition Channel_pushBack :: "'m Channel \<Rightarrow> 'm \<Rightarrow> error + ('m Channel \<times> ConnectionStatus option)" where
  "Channel_pushBack ch msg =
     (if length (msgQ ch) < unat (sendQueueLimit ch)
         \<and> localSeqNum ch - localSeqNumOnPeer ch < sendQueueLimit ch
      then
        let spaceBefore = getAvailable ch;
            ch' = ch\<lparr> msgQ := msgQ ch @ [msg], localSeqNum := localSeqNum ch + 1 \<rparr>
        in Inr (ch', getNewStatus ch' spaceBefore (getAvailable ch'))
      else Inl (Overflow (mqt ch)))"


text \<open>
  Modelled from the spec: the body of \<^verbatim>\<open>Channel::setRemoteState\<close> is in Connection.cpp.
  Section 4.1: "Updates remoteCapacity, advances localSeqOnPeer = observedLocalSeq
  (monotonic; ignore regressions from a stale frame), and records remoteSeq = peerLocalSeq."
  Section 3 gives \<open>remoteCapacity\<close> the invariant \<open>\<ge> 1\<close>, which the constructor
  establishes by raising a smaller value to 1 (lines 77 and 78); the update keeps the
  invariant in the same way.
\<close>

definition Channel_setRemoteState ::
  "'m Channel \<Rightarrow> u64 \<Rightarrow> u64 \<Rightarrow> u64 \<Rightarrow> 'm Channel \<times> ConnectionStatus option" where
  "Channel_setRemoteState ch rSize lSn rSn =
     (let spaceBefore = getAvailable ch;
          ch' = ch\<lparr> remoteSize := (if rSize > 1 then rSize else 1),
                    localSeqNumOnPeer := (if lSn > localSeqNumOnPeer ch then lSn else localSeqNumOnPeer ch),
                    remoteSeqNum := rSn \<rparr>
      in (ch', getNewStatus ch' spaceBefore (getAvailable ch')))"

text \<open>
  Modelled from the spec: the body of \<^verbatim>\<open>Channel::abortMessages\<close> is in Connection.cpp.
  Section 4.1: "drop all queued messages; for each, invoke its owning-query abort callback.
  Does not reset sequence numbers." The second component lists the messages whose abort
  callback is invoked, in the order of the calls.
\<close>

definition Channel_abortMessages :: "'m Channel \<Rightarrow> 'm Channel \<times> 'm list" where
  "Channel_abortMessages ch = (ch\<lparr> msgQ := [] \<rparr>, msgQ ch)"

text \<open>
  Modelled from the spec: the caller of \<^verbatim>\<open>validateRemoteState\<close> is in Connection.cpp.
  Section 7: a ProtocolViolation is raised when validateRemoteState fails; it is fatal
  (the connection is closed and reconnects from a clean state).
\<close>

definition checkRemoteState :: "'m Channel \<Rightarrow> u64 \<Rightarrow> u64 \<Rightarrow> u64 \<Rightarrow> error + unit" where
  "checkRemoteState ch rSize lSn rSn =
     (if validateRemoteState ch rSize lSn rSn then Inr () else Inl ProtocolViolation)"

subsection \<open>MultiChannelQueue operations whose bodies are not in the header\<close>

text \<open>
  Modelled from the spec: the code that fills the vector of channels is in Connection.cpp.
  Section 3 of the spec lets the queue own one Channel per class, while the constructor
  of the queue (line 178) leaves every slot of the vector null; here the channel of a
  class is made by the Channel constructor when the class is first used. A class outside
  the vector is refused.
\<close>

definition channelFor ::
  "NetworkManager \<Rightarrow> 'm MultiChannelQueue \<Rightarrow> MessageQueueType \<Rightarrow> error + 'm Channel" where
  "channelFor nm q t =
     (if \<not> t < length (channels q) then Inl AssertionFailed
      else case channels q ! t of
             Some ch \<Rightarrow> Inr ch
           | None \<Rightarrow> Channel_ctor nm (mcq_instanceId q) t)"



definition queued :: "'m Channel option \<Rightarrow> 'm list" where
  "queued c = (case c of None \<Rightarrow> [] | Some ch \<Rightarrow> msgQ ch)"


definition pendingMessages :: "'m MultiChannelQueue \<Rightarrow> 'm list" where
  "pendingMessages q = concat (map queued (channels q))"

text \<open>
  Modelled from the spec: how an operation of the queue keeps \<open>activeCount\<close> is code of
  Connection.cpp. Section 4.2 names the two transitions ("if the channel transitioned
  idle->active, activeCount++", "if the channel became inactive, decrement
  activeCount"); the counter follows the channel that the operation has touched,
  whichever operation it is.
\<close>

definition adjustActive :: "bool \<Rightarrow> bool \<Rightarrow> u64 \<Rightarrow> u64" where
  "adjustActive activeBefore activeAfter n =
     (if \<not> activeBefore \<and> activeAfter then n + 1
      else if activeBefore \<and> \<not> activeAfter then n - 1
      else n)"

text \<open>
  Modelled from the spec: the body of \<^verbatim>\<open>MultiChannelQueue::pushBack\<close> is in
  Connection.cpp. Section 4.2: "route to the class's Channel; on success update totalSize
  and, if the channel transitioned idle->active, activeCount++."
\<close>

definition MultiChannelQueue_pushBack ::
  "NetworkManager \<Rightarrow> 'm MultiChannelQueue \<Rightarrow> MessageQueueType \<Rightarrow> 'm
     \<Rightarrow> error + ('m MultiChannelQueue \<times> ConnectionStatus option)" where
  "MultiChannelQueue_pushBack nm q t msg =
     (case channelFor nm q t of
        Inl e \<Rightarrow> Inl e
      | Inr ch \<Rightarrow>
          (case isActive ch of
             Inl e \<Rightarrow> Inl e
           | Inr activeBefore \<Rightarrow>
               (case Channel_pushBack ch msg of
                  Inl e \<Rightarrow> Inl e
                | Inr (ch', st) \<Rightarrow>
                    (case isActive ch' of
                       Inl e \<Rightarrow> Inl e
                     | Inr activeAfter \<Rightarrow>
                         Inr (q\<lparr> channels := (channels q)[t := Some ch'],
                                 size_mcq := size_mcq q + 1,
                                 activeChannelCount :=
                                   adjustActive activeBefore activeAfter (activeChannelCount q) \<rparr>,
                              st)))))"



text \<open>
  Modelled from the spec: the body of \<^verbatim>\<open>MultiChannelQueue::abortMessages\<close> is in
  Connection.cpp. Section 4.2: "drain every channel via its abort path." After the drain
  no message is queued and no channel is active, which is what the two cached counters
  record.
\<close>

fun abortAll :: "'m Channel option list \<Rightarrow> 'm Channel option list \<times> 'm list" where
  "abortAll [] = ([], [])"
| "abortAll (None # cs) = (let (cs', ab) = abortAll cs in (None # cs', ab))"
| "abortAll (Some ch # cs) =
     (let (ch', ab1) = Channel_abortMessages ch;
          (cs', ab2) = abortAll cs
      in (Some ch' # cs', ab1 @ ab2))"

definition MultiChannelQueue_abortMessages ::
  "'m MultiChannelQueue \<Rightarrow> 'm MultiChannelQueue \<times> 'm list" where
  "MultiChannelQueue_abortMessages q =
     (let (cs, ab) = abortAll (channels q)
      in (q\<lparr> channels := cs, activeChannelCount := 0, size_mcq := 0 \<rparr>, ab))"

text \<open>The sequence numbers of a channel are reset when the peer has restarted.\<close>

definition resetSeqNums :: "'m Channel \<Rightarrow> 'm Channel" where
  "resetSeqNums ch = ch\<lparr> localSeqNum := 0, remoteSeqNum := 0, localSeqNumOnPeer := 0 \<rparr>"

text \<open>
  Modelled from the spec: the body of \<^verbatim>\<open>MultiChannelQueue::setRemoteState\<close> is in
  Connection.cpp. The parameters keep the order of the declaration (lines 216 to 221):
  \<open>lGen\<close> is our generation id as seen by the peer, \<open>rGen\<close> is the peer's generation id.
  Section 4.2 lists three cases:
  "peerGen > remoteGen: peer has restarted; discard all pending messages on all channels
  (each aborts its owning query), reset channel sequence numbers, set remoteGen = peerGen";
  "ourGenSeenByPeer < localGen: drop the frame silently";
  "peerGen == remoteGen and ourGenSeenByPeer == localGen: normal update; forward to the
  Channel". The spec gives no order for a frame that is in the first two cases at once;
  the restart is tested first here. Section 7 adds that a peer generation below the
  observed one is stale and dropped silently. The spec says nothing of a frame that names
  a generation of ours later than \<open>localGen\<close>: that outcome is \<open>Unspecified\<close>.
  The third component of the result lists the messages whose abort callback is invoked.
\<close>

definition MultiChannelQueue_setRemoteState ::
  "NetworkManager \<Rightarrow> 'm MultiChannelQueue \<Rightarrow> MessageQueueType \<Rightarrow> u64 \<Rightarrow> u64 \<Rightarrow> u64 \<Rightarrow> u64 \<Rightarrow> u64
     \<Rightarrow> error + ('m MultiChannelQueue \<times> ConnectionStatus option \<times> 'm list)" where
  "MultiChannelQueue_setRemoteState nm q t rSize lGen rGen lSn rSn =
     (if rGen > remoteGenId q then
        let (q', ab) = MultiChannelQueue_abortMessages q
        in Inr (q'\<lparr> channels := map (map_option resetSeqNums) (channels q'),
                    remoteGenId := rGen \<rparr>, None, ab)
      else if lGen < localGenId q then Inr (q, None, [])
      else if rGen < remoteGenId q then Inr (q, None, [])
      else if lGen = localGenId q then
        (case channelFor nm q t of
           Inl e \<Rightarrow> Inl e
         | Inr ch \<Rightarrow>
             (case isActive ch of
                Inl e \<Rightarrow> Inl e
              | Inr activeBefore \<Rightarrow>
                  let (ch', st) = Channel_setRemoteState ch rSize lSn rSn
                  in (case isActive ch' of
                        Inl e \<Rightarrow> Inl e
                      | Inr activeAfter \<Rightarrow>
                          Inr (q\<lparr> channels := (channels q)[t := Some ch'],
                                  activeChannelCount :=
                                    adjustActive activeBefore activeAfter (activeChannelCount q) \<rparr>,
                               st, []))))
      else Inl Unspecified)"


subsection \<open>The states that the operations reach\<close>




subsection \<open>Inputs of the spec's end-to-end scenarios\<close>

text \<open>
  Concrete states for the scenarios of section 8 of the spec; the messages are named by
  strings. \<open>nm_limits sl rs\<close> is a NetworkManager with three message classes whose send
  queue limit is \<open>sl\<close> and whose receive queue hint is \<open>rs\<close> for every class.
\<close>

definition nm_limits :: "u64 \<Rightarrow> u64 \<Rightarrow> NetworkManager" where
  "nm_limits sl rs =
     \<lparr> mqtNone = 0, mqtMax = 3, getSendQueueLimit = (\<lambda>_. sl), getReceiveQueueHint = (\<lambda>_. rs) \<rparr>"

definition env_other :: Clocks where
  "env_other = \<lparr> platform = OTHER,
                 gettimeofday = Some \<lparr> tv_sec = 1700000000, tv_usec = 250 \<rparr>,
                 clock_gettime_MONOTONIC = Some \<lparr> ts_sec = 200, ts_nsec = 5 \<rparr> \<rparr>"

definition env_apple :: Clocks where
  "env_apple = env_other\<lparr> platform := APPLE \<rparr>"

text \<open>Scenario 1 (back-pressure): send limit 2, remote capacity 2, class 1.\<close>

definition chan0 :: "string Channel" where
  "chan0 = \<lparr> instanceId = 1, mqt = 1, remoteSize = 2, localSeqNum = 0, remoteSeqNum = 0,
            localSeqNumOnPeer = 0, msgQ = [], sendQueueLimit = 2 \<rparr>"

definition chan1 :: "string Channel" where
  "chan1 = chan0\<lparr> msgQ := [''m1''], localSeqNum := 1 \<rparr>"

definition chan2 :: "string Channel" where
  "chan2 = chan0\<lparr> msgQ := [''m1'', ''m2''], localSeqNum := 2 \<rparr>"

definition queueA :: "string MultiChannelQueue" where
  "queueA = \<lparr> mcq_instanceId = 1, channels = [None, None, None], currChannel = 0,
              activeChannelCount = 0, size_mcq = 0, remoteGenId = 0, localGenId = 200000000005 \<rparr>"

definition queueB :: "string MultiChannelQueue" where
  "queueB = queueA\<lparr> channels := [None, Some chan1, None], size_mcq := 1, activeChannelCount := 1 \<rparr>"

definition queueC :: "string MultiChannelQueue" where
  "queueC = queueA\<lparr> channels := [None, Some chan2, None], size_mcq := 2, activeChannelCount := 0 \<rparr>"

text \<open>Scenario 3 (peer restart): five messages pending on class 1.\<close>

definition chan5 :: "string Channel" where
  "chan5 = \<lparr> instanceId = 1, mqt = 1, remoteSize = 8, localSeqNum = 5, remoteSeqNum = 0,
            localSeqNumOnPeer = 0, msgQ = [''m1'', ''m2'', ''m3'', ''m4'', ''m5''],
            sendQueueLimit = 8 \<rparr>"

definition queue5 :: "string MultiChannelQueue" where
  "queue5 = \<lparr> mcq_instanceId = 1, channels = [None, Some chan5, None], currChannel = 0,
              activeChannelCount = 1, size_mcq = 5, remoteGenId = 100, localGenId = 200 \<rparr>"

section \<open>Auxiliary lemmas\<close>

lemmas scenario_defs = nm_limits_def env_other_def env_apple_def chan0_def chan1_def chan2_def
  queueA_def queueB_def queueC_def chan5_def queue5_def

text \<open>
  The channel operations modelled from the spec reproduce its scenario 1 (back-pressure
  and relief): with send limit 2 and remote capacity 2 the pushes of m1 and m2 are
  accepted and the second one reports the available space 0, the push of m3 overflows,
  and the control frame with observed sequence number 2 and remote capacity 4 reports the
  available space 4.
\<close>

lemma scenario_back_pressure_and_relief:
  "Channel_pushBack chan0 ''m1'' = Inr (chan1, None)
   \<and> Channel_pushBack chan1 ''m2''
       = Inr (chan2, Some \<lparr> cs_instanceId = 1, cs_queueType = 1, cs_available = 0 \<rparr>)
   \<and> Channel_pushBack chan2 ''m3'' = Inl (Overflow 1)
   \<and> Channel_setRemoteState chan2 4 2 0
       = (chan2\<lparr> remoteSize := 4, localSeqNumOnPeer := 2 \<rparr>,
          Some \<lparr> cs_instanceId = 1, cs_queueType = 1, cs_available = 4 \<rparr>)"
  by (simp add: scenario_defs Channel_pushBack_def Channel_setRemoteState_def getAvailable_def
        getNewStatus_def Let_def)

lemma abortAll_eq:
  "abortAll cs = (map (map_option (\<lambda>ch. ch\<lparr> msgQ := [] \<rparr>)) cs, concat (map queued cs))"
  by (induction cs rule: abortAll.induct) (simp_all add: Channel_abortMessages_def queued_def)

lemma MultiChannelQueue_abortMessages_eq:
  "MultiChannelQueue_abortMessages q =
     (q\<lparr> channels := map (map_option (\<lambda>ch. ch\<lparr> msgQ := [] \<rparr>)) (channels q),
         activeChannelCount := 0, size_mcq := 0 \<rparr>, pendingMessages q)"
  by (simp add: MultiChannelQueue_abortMessages_def pendingMessages_def abortAll_eq)

lemma setRemoteState_restart_eq:
  "remoteGenId q < rGen \<Longrightarrow>
     MultiChannelQueue_setRemoteState nm q t rSize lGen rGen lSn rSn =
       Inr (q\<lparr> channels := map (map_option (\<lambda>ch. resetSeqNums (ch\<lparr> msgQ := [] \<rparr>))) (channels q),
               activeChannelCount := 0, size_mcq := 0, remoteGenId := rGen \<rparr>, None, pendingMessages q)"
  by (simp add: MultiChannelQueue_setRemoteState_def MultiChannelQueue_abortMessages_eq
        option.map_comp comp_def)




















lemma one_le_word_iff: "(1 \<le> (w :: u64)) = (0 < w)"
  by (simp add: word_le_nat_alt word_less_nat_alt) arith

lemma Channel_pushBack_first:
  "msgQ ch = [] \<Longrightarrow> localSeqNum ch = 0 \<Longrightarrow> localSeqNumOnPeer ch = 0 \<Longrightarrow> 1 \<le> sendQueueLimit ch \<Longrightarrow>
     \<exists>st. Channel_pushBack ch m = Inr (ch\<lparr> msgQ := [m], localSeqNum := 1 \<rparr>, st)"
  by (simp add: Channel_pushBack_def Let_def one_le_word_iff word_less_nat_alt)

lemma Channel_ctor_fresh:
  "t < mqtMax nm \<Longrightarrow>
     \<exists>ch. (Channel_ctor nm iid t :: error + 'm Channel) = Inr ch \<and> msgQ ch = [] \<and> localSeqNum ch = 0
        \<and> localSeqNumOnPeer ch = 0 \<and> 1 \<le> sendQueueLimit ch \<and> 1 \<le> remoteSize ch"
  by (simp add: Channel_ctor_def Let_def less_imp_le)

lemma pushBack_first_on_queue:
  assumes t: "t < length (channels q)"
    and ch: "channelFor nm q t = Inr ch"
    and fresh: "msgQ ch = []" "localSeqNum ch = 0" "localSeqNumOnPeer ch = 0" "1 \<le> sendQueueLimit ch"
  shows "\<exists>q' st ch'. MultiChannelQueue_pushBack nm q t m = Inr (q', st)
           \<and> channels q' ! t = Some ch' \<and> localSeqNum ch' = 1 \<and> msgQ ch' = [m]"
proof -
  from Channel_pushBack_first [OF fresh] obtain st
    where p: "Channel_pushBack ch m = Inr (ch\<lparr> msgQ := [m], localSeqNum := 1 \<rparr>, st)" by blast
  have a: "isActive ch = Inr False" using fresh by (simp add: isActive_def)
  have b: "\<exists>b. isActive (ch\<lparr> msgQ := [m], localSeqNum := 1 \<rparr>) = Inr b"
    using fresh by (simp add: isActive_def)
  then obtain b where b: "isActive (ch\<lparr> msgQ := [m], localSeqNum := 1 \<rparr>) = Inr b" by blast
  show ?thesis using t by (simp add: MultiChannelQueue_pushBack_def ch a p b)
qed


section \<open>The claims\<close>

subsection \<open>C1: admission of a message by Channel::pushBack\<close>

text \<open>
  Claim C1. \<open>pushBack\<close> succeeds exactly when the queue holds fewer than \<open>sendLimit\<close>
  messages and \<open>localSeq - localSeqOnPeer\<close> (the unsigned difference, which is the
  in-flight count whenever \<open>localSeqOnPeer \<le> localSeq\<close>) is below \<open>sendLimit\<close>. On success
  the new state is the old one with the message appended and \<open>localSeq\<close> incremented;
  otherwise the result is \<open>Overflow\<close> and no new state is produced. Whether the push is
  admitted does not depend on \<open>remoteSize\<close>. The body of pushBack is modelled from
  section 4.1 of the spec.
\<close>

theorem Channel_pushBack_admission:
  "((\<exists>ch' st. Channel_pushBack ch m = Inr (ch', st)) \<longleftrightarrow>
      length (msgQ ch) < unat (sendQueueLimit ch)
      \<and> localSeqNum ch - localSeqNumOnPeer ch < sendQueueLimit ch)
   \<and> (\<forall>ch' st. Channel_pushBack ch m = Inr (ch', st) \<longrightarrow>
        ch' = ch\<lparr> msgQ := msgQ ch @ [m], localSeqNum := localSeqNum ch + 1 \<rparr>)
   \<and> (\<not> (length (msgQ ch) < unat (sendQueueLimit ch)
          \<and> localSeqNum ch - localSeqNumOnPeer ch < sendQueueLimit ch) \<longrightarrow>
        Channel_pushBack ch m = Inl (Overflow (mqt ch)))
   \<and> (localSeqNumOnPeer ch \<le> localSeqNum ch \<longrightarrow>
        (localSeqNum ch - localSeqNumOnPeer ch < sendQueueLimit ch) = (inFlight ch < uint (sendQueueLimit ch)))
   \<and> isl (Channel_pushBack (ch\<lparr> remoteSize := r \<rparr>) m) = isl (Channel_pushBack ch m)"
  by (auto simp: Channel_pushBack_def Let_def inFlight_def word_less_def word_le_def uint_sub_if')

text \<open>
  Scenario 1 of the spec: with send limit 2 the second message is accepted and saturates
  the channel, the third is refused, whatever the remote capacity.
\<close>

theorem Channel_pushBack_admission_witness:
  "Channel_pushBack chan1 ''m2''
     = Inr (chan2, Some \<lparr> cs_instanceId = 1, cs_queueType = 1, cs_available = 0 \<rparr>)
   \<and> Channel_pushBack chan2 ''m3'' = Inl (Overflow 1)
   \<and> Channel_pushBack (chan2\<lparr> remoteSize := 9 \<rparr>) ''m3'' = Inl (Overflow 1)"
  using Channel_pushBack_admission [of chan1 "''m2''" 9] Channel_pushBack_admission [of chan2 "''m3''" 9]
  by (simp add: scenario_defs Channel_pushBack_def getAvailable_def getNewStatus_def)

subsection \<open>C2: Channel::isActive\<close>

text \<open>
  Claim C2. In every channel state that passes the assertion of \<open>isActive\<close>
  (\<open>localSeqNumOnPeer \<le> localSeqNum\<close>, the invariant of the data model), \<open>isActive\<close>
  returns true iff the remote capacity is strictly greater than the in-flight count
  \<open>localSeq - localSeqOnPeer\<close> and the queue is not empty; equivalently, iff the
  available credit is positive and the queue is not empty. In the other states the
  assertion fails.
\<close>

theorem isActive_iff:
  "(localSeqNumOnPeer ch \<le> localSeqNum ch \<longrightarrow>
       isActive ch = Inr (inFlight ch < uint (remoteSize ch) \<and> msgQ ch \<noteq> [])
     \<and> (isActive ch = Inr True \<longleftrightarrow> 0 < availableCredit ch \<and> msgQ ch \<noteq> [])
     \<and> 0 \<le> inFlight ch)
   \<and> (\<not> localSeqNumOnPeer ch \<le> localSeqNum ch \<longrightarrow> isActive ch = Inl AssertionFailed)"
  by (auto simp: isActive_def inFlight_def availableCredit_def word_less_def word_le_def uint_sub_if')

theorem isActive_iff_witness:
  "localSeqNumOnPeer chan1 \<le> localSeqNum chan1 \<and> isActive chan1 = Inr True
   \<and> inFlight chan1 = 1 \<and> availableCredit chan1 = 1
   \<and> isActive chan2 = Inr False \<and> availableCredit chan2 = 0"
  using isActive_iff [of chan1] isActive_iff [of chan2]
  by (simp add: scenario_defs inFlight_def availableCredit_def)

subsection \<open>C3: Channel::validateRemoteState\<close>

text \<open>
  Claim C3. \<open>validateRemoteState rSize localSeqNum remoteSeqNum\<close> is true iff the
  channel's \<open>localSeq\<close> is at least the peer-reported \<open>localSeqNum\<close>; the result does not
  depend on \<open>rSize\<close> or \<open>remoteSeqNum\<close>. A false result is the fatal error
  \<open>ProtocolViolation\<close> (this last part is the reaction of the caller, taken from section 7
  of the spec).
\<close>

theorem validateRemoteState_iff:
  "validateRemoteState ch rSize lSn rSn = (lSn \<le> localSeqNum ch)
   \<and> validateRemoteState ch rSize lSn rSn = (unat lSn \<le> unat (localSeqNum ch))
   \<and> validateRemoteState ch rSize lSn rSn = validateRemoteState ch rSize' lSn rSn'
   \<and> (\<not> validateRemoteState ch rSize lSn rSn \<longrightarrow> checkRemoteState ch rSize lSn rSn = Inl ProtocolViolation)
   \<and> (validateRemoteState ch rSize lSn rSn \<longrightarrow> checkRemoteState ch rSize lSn rSn = Inr ())"
  by (simp add: validateRemoteState_def checkRemoteState_def word_le_nat_alt)

text \<open>Scenario 6 of the spec: the peer reports a sequence number that was never sent.\<close>

theorem validateRemoteState_iff_witness:
  "\<not> validateRemoteState chan5 8 10 0 \<and> checkRemoteState chan5 8 10 0 = Inl ProtocolViolation
   \<and> validateRemoteState chan5 8 5 0 \<and> checkRemoteState chan5 8 5 0 = Inr ()"
  using validateRemoteState_iff [of chan5 8 10 0] validateRemoteState_iff [of chan5 8 5 0]
  by (simp add: scenario_defs)

subsection \<open>C4: a control frame of a restarted peer\<close>

text \<open>
  Claim C4. When \<open>setRemoteState\<close> is called with a peer generation id greater than the
  stored \<open>remoteGenId\<close>, the abort callback is invoked for every pending message of every
  channel and all queues are emptied, \<open>localSeq\<close> and \<open>localSeqOnPeer\<close> of every channel
  become 0, and \<open>remoteGenId\<close> becomes the new peer generation (the two cached counters become 0
  with the queues). The next push on any
  class of the queue then succeeds and leaves that channel with \<open>localSeq = 1\<close> (for a
  channel that exists, its send limit is at least 1, as the constructor guarantees). The
  body of setRemoteState is modelled from section 4.2 of the spec.
\<close>

theorem setRemoteState_peer_restart:
  assumes "remoteGenId q < rGen"
  shows "\<exists>q'. MultiChannelQueue_setRemoteState nm q t rSize lGen rGen lSn rSn = Inr (q', None, pendingMessages q)
       \<and> q' = q\<lparr> channels := map (map_option (\<lambda>ch. ch\<lparr> msgQ := [], localSeqNum := 0, remoteSeqNum := 0,
                                                         localSeqNumOnPeer := 0 \<rparr>)) (channels q),
                   activeChannelCount := 0, size_mcq := 0, remoteGenId := rGen \<rparr>
       \<and> remoteGenId q' = rGen
       \<and> length (channels q') = length (channels q)
       \<and> pendingMessages q' = []
       \<and> (\<forall>i ch'. i < length (channels q) \<and> channels q' ! i = Some ch' \<longrightarrow>
            msgQ ch' = [] \<and> localSeqNum ch' = 0 \<and> localSeqNumOnPeer ch' = 0)
       \<and> (\<forall>t' m. t' < length (channels q) \<and> length (channels q) \<le> mqtMax nm
                  \<and> (\<forall>ch. channels q ! t' = Some ch \<longrightarrow> 1 \<le> sendQueueLimit ch) \<longrightarrow>
            (\<exists>q'' st ch''. MultiChannelQueue_pushBack nm q' t' m = Inr (q'', st)
               \<and> channels q'' ! t' = Some ch'' \<and> localSeqNum ch'' = 1 \<and> msgQ ch'' = [m]))"
proof -
  let ?f = "\<lambda>ch :: 'a Channel. resetSeqNums (ch\<lparr> msgQ := [] \<rparr>)"
  let ?q' = "q\<lparr> channels := map (map_option ?f) (channels q), activeChannelCount := 0,
                size_mcq := 0, remoteGenId := rGen \<rparr>"
  have eq: "MultiChannelQueue_setRemoteState nm q t rSize lGen rGen lSn rSn = Inr (?q', None, pendingMessages q)"
    by (rule setRemoteState_restart_eq [OF assms])
  have pend: "pendingMessages ?q' = []"
    by (auto simp: pendingMessages_def queued_def resetSeqNums_def split: option.splits)
  have chans: "\<forall>i ch'. i < length (channels q) \<and> channels ?q' ! i = Some ch' \<longrightarrow>
            msgQ ch' = [] \<and> localSeqNum ch' = 0 \<and> localSeqNumOnPeer ch' = 0"
    by (auto simp: resetSeqNums_def)
  have push: "\<exists>q'' st ch''. MultiChannelQueue_pushBack nm ?q' t' m = Inr (q'', st)
               \<and> channels q'' ! t' = Some ch'' \<and> localSeqNum ch'' = 1 \<and> msgQ ch'' = [m]"
    if t': "t' < length (channels q)" and len: "length (channels q) \<le> mqtMax nm"
      and sl: "\<forall>ch. channels q ! t' = Some ch \<longrightarrow> 1 \<le> sendQueueLimit ch" for t' m
  proof (cases "channels q ! t'")
    case None
    from t' len have "t' < mqtMax nm" by simp
    from Channel_ctor_fresh [OF this, of "mcq_instanceId q"] obtain ch :: "'a Channel"
      where c: "Channel_ctor nm (mcq_instanceId q) t' = Inr ch" "msgQ ch = []" "localSeqNum ch = 0"
        "localSeqNumOnPeer ch = 0" "1 \<le> sendQueueLimit ch" by blast
    have "channelFor nm ?q' t' = Inr ch" using t' None c(1) by (simp add: channelFor_def)
    from pushBack_first_on_queue [OF _ this c(2-5)] t' show ?thesis by simp
  next
    case (Some ch)
    have cf: "channelFor nm ?q' t' = Inr (?f ch)" using t' Some by (simp add: channelFor_def)
    have "1 \<le> sendQueueLimit (?f ch)" using sl Some by (simp add: resetSeqNums_def)
    from pushBack_first_on_queue [OF _ cf _ _ _ this] t' show ?thesis by (simp add: resetSeqNums_def)
  qed
  have shape: "?q' = q\<lparr> channels := map (map_option (\<lambda>ch. ch\<lparr> msgQ := [], localSeqNum := 0,
                          remoteSeqNum := 0, localSeqNumOnPeer := 0 \<rparr>)) (channels q),
                   activeChannelCount := 0, size_mcq := 0, remoteGenId := rGen \<rparr>"
    by (simp add: resetSeqNums_def)
  have gen: "remoteGenId ?q' = rGen" and len: "length (channels ?q') = length (channels q)"
    by simp_all
  from eq shape gen len pend chans push show ?thesis by blast
qed

text \<open>Scenario 3 of the spec: five pending messages, peer generation 101 after 100.\<close>

theorem setRemoteState_peer_restart_witness:
  "remoteGenId queue5 < 101
   \<and> (\<exists>q'. MultiChannelQueue_setRemoteState (nm_limits 8 8) queue5 1 8 200 101 0 0
             = Inr (q', None, [''m1'', ''m2'', ''m3'', ''m4'', ''m5''])
          \<and> remoteGenId q' = 101 \<and> pendingMessages q' = []
          \<and> (\<exists>q'' st ch''. MultiChannelQueue_pushBack (nm_limits 8 8) q' 1 ''m6'' = Inr (q'', st)
                \<and> channels q'' ! 1 = Some ch'' \<and> localSeqNum ch'' = 1 \<and> msgQ ch'' = [''m6'']))"
proof -
  have g: "remoteGenId queue5 < 101" by (simp add: scenario_defs)
  have p: "pendingMessages queue5 = [''m1'', ''m2'', ''m3'', ''m4'', ''m5'']"
    by (simp add: scenario_defs pendingMessages_def queued_def)
  have pre: "1 < length (channels queue5) \<and> length (channels queue5) \<le> mqtMax (nm_limits 8 8)
     \<and> (\<forall>ch. channels queue5 ! 1 = Some ch \<longrightarrow> 1 \<le> sendQueueLimit ch)"
    by (simp add: scenario_defs)
  from setRemoteState_peer_restart [OF g, of "nm_limits 8 8" 1 8 200 0 0] p pre g
  show ?thesis by (metis (no_types, lifting))
qed

subsection \<open>C6: the source of a generation id\<close>

text \<open>
  Claim C6 says that a generation id always comes from the monotonic clock. On a build
  with \<^verbatim>\<open>__APPLE__\<close> defined \<open>getNextGenId\<close> reads \<^verbatim>\<open>gettimeofday\<close>, the wall clock: its
  result follows that reading and differs from the one the monotonic clock would give.
\<close>

theorem getNextGenId_clock_counterexample:
  "clock_gettime_MONOTONIC env_apple = Some \<lparr> ts_sec = 200, ts_nsec = 5 \<rparr>
   \<and> getNextGenId env_apple \<noteq> Inr (200 * 1000000000 + 5)
   \<and> gettimeofday env_apple = Some \<lparr> tv_sec = 1700000000, tv_usec = 250 \<rparr>
   \<and> getNextGenId env_apple = Inr (1700000000 * 1000000000 + 250 * 1000)"
  by (simp add: scenario_defs getNextGenId_def billion_def)

text \<open>
  Claim C6, amended. On a build without \<^verbatim>\<open>__APPLE__\<close>, every generation id that
  \<open>getNextGenId\<close> returns is seconds * 10^9 + nanoseconds of the \<^verbatim>\<open>CLOCK_MONOTONIC\<close>
  reading (in 64-bit arithmetic; exactly that number when it is below 2^64), whatever the
  wall clock says. On a build with \<^verbatim>\<open>__APPLE__\<close>, every generation id it returns is
  seconds * 10^9 + microseconds * 1000 of the \<^verbatim>\<open>gettimeofday\<close> reading, whatever the
  monotonic clock says. The \<open>localGenId\<close> of a constructed queue is the value returned.
\<close>

theorem getNextGenId_clock:
  "(platform env = OTHER \<longrightarrow>
      (\<forall>ts. clock_gettime_MONOTONIC env = Some ts \<longrightarrow>
         getNextGenId env = Inr (ts_sec ts * 1000000000 + ts_nsec ts))
      \<and> (\<forall>g. getNextGenId env = Inr g \<longrightarrow>
           (\<exists>ts. clock_gettime_MONOTONIC env = Some ts \<and> g = ts_sec ts * 1000000000 + ts_nsec ts))
      \<and> getNextGenId (env\<lparr> gettimeofday := w \<rparr>) = getNextGenId env)
   \<and> (platform env = APPLE \<longrightarrow>
      (\<forall>tv. gettimeofday env = Some tv \<longrightarrow>
         getNextGenId env = Inr (tv_sec tv * 1000000000 + tv_usec tv * 1000))
      \<and> (\<forall>g. getNextGenId env = Inr g \<longrightarrow>
           (\<exists>tv. gettimeofday env = Some tv \<and> g = tv_sec tv * 1000000000 + tv_usec tv * 1000))
      \<and> getNextGenId (env\<lparr> clock_gettime_MONOTONIC := c \<rparr>) = getNextGenId env)
   \<and> (\<forall>q :: 'm MultiChannelQueue. MultiChannelQueue_ctor nm env iid = Inr q \<longrightarrow>
        getNextGenId env = Inr (localGenId q))
   \<and> (\<forall>ts g. platform env = OTHER \<and> clock_gettime_MONOTONIC env = Some ts
        \<and> unat (ts_sec ts) * 1000000000 + unat (ts_nsec ts) < 2 ^ 64 \<and> getNextGenId env = Inr g \<longrightarrow>
        unat g = unat (ts_sec ts) * 1000000000 + unat (ts_nsec ts))"
  by (auto simp: getNextGenId_def billion_def MultiChannelQueue_ctor_def unat_word_ariths
        split: sum.splits option.splits build.splits)

theorem getNextGenId_clock_witness:
  "platform env_other = OTHER \<and> getNextGenId env_other = Inr 200000000005
   \<and> getNextGenId (env_other\<lparr> gettimeofday := None \<rparr>) = Inr 200000000005
   \<and> platform env_apple = APPLE \<and> getNextGenId env_apple = Inr 1700000000000250000
   \<and> (MultiChannelQueue_ctor (nm_limits 2 2) env_other 1 :: error + string MultiChannelQueue) = Inr queueA"
  using getNextGenId_clock [of env_other None None "nm_limits 2 2" 1]
    getNextGenId_clock [of env_apple None None "nm_limits 2 2" 1]
  by (simp add: scenario_defs MultiChannelQueue_ctor_def getNextGenId_def billion_def numeral_3_eq_3)

subsection \<open>C7: the limits of a channel are at least 1\<close>



subsection \<open>C8: the cached counters of a MultiChannelQueue\<close>



subsection \<open>C9: a freshly constructed channel\<close>

text \<open>
  Claim C9. The constructor succeeds for every class below \<open>mqtMax\<close>; the new channel has
  \<open>localSeqNum = remoteSeqNum = localSeqNumOnPeer = 0\<close> and an empty queue, so its
  in-flight count is 0, \<open>localSeqNumOnPeer \<le> localSeqNum\<close> holds and \<open>isActive\<close> returns
  false. As long as the queue is as empty as it was at construction, whatever the other
  fields are, \<open>isActive\<close> does not return true.
\<close>

theorem fresh_Channel:
  "t < mqtMax nm \<Longrightarrow>
     \<exists>ch. (Channel_ctor nm iid t :: error + 'm Channel) = Inr ch
       \<and> localSeqNum ch = 0 \<and> remoteSeqNum ch = 0 \<and> localSeqNumOnPeer ch = 0 \<and> msgQ ch = []
       \<and> inFlight ch = 0 \<and> localSeqNumOnPeer ch \<le> localSeqNum ch \<and> isActive ch = Inr False
       \<and> (\<forall>c :: 'm Channel. msgQ c = msgQ ch \<longrightarrow> isActive c \<noteq> Inr True)"
  by (simp add: Channel_ctor_def Let_def inFlight_def isActive_def)

theorem fresh_Channel_witness:
  "(1::nat) < mqtMax (nm_limits 2 2)
   \<and> (Channel_ctor (nm_limits 2 2) 1 1 :: error + string Channel) = Inr chan0
   \<and> localSeqNum chan0 = 0 \<and> remoteSeqNum chan0 = 0 \<and> localSeqNumOnPeer chan0 = 0
   \<and> msgQ chan0 = [] \<and> inFlight chan0 = 0 \<and> isActive chan0 = Inr False
   \<and> isActive (chan0\<lparr> remoteSize := 9 \<rparr>) = Inr False"
  using fresh_Channel [of 1 "nm_limits 2 2" 1, where ?'m = string]
  by (simp add: scenario_defs Channel_ctor_def Let_def inFlight_def isActive_def)

subsection \<open>C10: Connection::isConnected\<close>

text \<open>
  Claim C10. \<open>isConnected\<close> returns true only in the state \<open>CONNECTED\<close>: it returns false
  in \<open>NOT_CONNECTED\<close> and in \<open>CONNECT_IN_PROGRESS\<close>, whatever the message queue holds.
\<close>

theorem isConnected_only_CONNECTED:
  "isConnected c = (connectionState c = CONNECTED)
   \<and> \<not> isConnected (c\<lparr>connectionState := NOT_CONNECTED\<rparr>)
   \<and> \<not> isConnected (c\<lparr>connectionState := CONNECT_IN_PROGRESS, messageQueue := q\<rparr>)"
  by (simp add: isConnected_def)

end
